theory Spec2Isabelle
  imports Complex_Main
begin

section \<open>JavaScript numbers\<close>

text \<open>
  The calculator of \<^verbatim>\<open>page.tsx\<close> computes on JavaScript numbers. A number is modelled as
  one of the three special values of IEEE 754 or a finite value, and a finite value is
  modelled as a real number: the arithmetic on finite values is exact, so the rounding of
  binary64 results, overflow to an infinity and the sign of zero (every zero is \<open>+0\<close>) are
  outside the model. Division by zero, arithmetic on infinities and on \<open>NaN\<close>, and the
  comparisons with \<open>NaN\<close> follow the language.
\<close>

datatype jsnum = NaN | PInf | NInf | Fin real

fun isNaN :: "jsnum \<Rightarrow> bool" where
  "isNaN NaN = True"
| "isNaN _ = False"

fun js_neg :: "jsnum \<Rightarrow> jsnum" where
  "js_neg NaN = NaN"
| "js_neg PInf = NInf"
| "js_neg NInf = PInf"
| "js_neg (Fin x) = Fin (- x)"

fun js_add :: "jsnum \<Rightarrow> jsnum \<Rightarrow> jsnum" where
  "js_add NaN _ = NaN"
| "js_add _ NaN = NaN"
| "js_add (Fin x) (Fin y) = Fin (x + y)"
| "js_add PInf NInf = NaN"
| "js_add NInf PInf = NaN"
| "js_add PInf _ = PInf"
| "js_add _ PInf = PInf"
| "js_add NInf _ = NInf"
| "js_add _ NInf = NInf"

definition js_sub :: "jsnum \<Rightarrow> jsnum \<Rightarrow> jsnum" where
  "js_sub a b = js_add a (js_neg b)"

text \<open>The sign of an infinite product or quotient, given the sign of the finite operand.\<close>

fun js_mul :: "jsnum \<Rightarrow> jsnum \<Rightarrow> jsnum" where
  "js_mul NaN _ = NaN"
| "js_mul _ NaN = NaN"
| "js_mul (Fin x) (Fin y) = Fin (x * y)"
| "js_mul PInf (Fin y) = (if y = 0 then NaN else if 0 < y then PInf else NInf)"
| "js_mul NInf (Fin y) = (if y = 0 then NaN else if 0 < y then NInf else PInf)"
| "js_mul (Fin x) PInf = (if x = 0 then NaN else if 0 < x then PInf else NInf)"
| "js_mul (Fin x) NInf = (if x = 0 then NaN else if 0 < x then NInf else PInf)"
| "js_mul PInf PInf = PInf"
| "js_mul NInf NInf = PInf"
| "js_mul PInf NInf = NInf"
| "js_mul NInf PInf = NInf"

fun js_div :: "jsnum \<Rightarrow> jsnum \<Rightarrow> jsnum" where
  "js_div NaN _ = NaN"
| "js_div _ NaN = NaN"
| "js_div (Fin x) (Fin y) =
     (if y = 0 then (if x = 0 then NaN else if 0 < x then PInf else NInf)
      else Fin (x / y))"
| "js_div (Fin x) PInf = Fin 0"
| "js_div (Fin x) NInf = Fin 0"
| "js_div PInf (Fin y) = (if 0 \<le> y then PInf else NInf)"
| "js_div NInf (Fin y) = (if 0 \<le> y then NInf else PInf)"
| "js_div PInf PInf = NaN"
| "js_div PInf NInf = NaN"
| "js_div NInf PInf = NaN"
| "js_div NInf NInf = NaN"

text \<open>The comparisons \<^verbatim>\<open><\<close>, \<^verbatim>\<open>>\<close>, \<^verbatim>\<open><=\<close>, \<^verbatim>\<open>>=\<close>: false as soon as one side is \<open>NaN\<close>.\<close>

fun js_lt :: "jsnum \<Rightarrow> jsnum \<Rightarrow> bool" where
  "js_lt NaN _ = False"
| "js_lt _ NaN = False"
| "js_lt (Fin x) (Fin y) = (x < y)"
| "js_lt _ NInf = False"
| "js_lt PInf _ = False"
| "js_lt NInf _ = True"
| "js_lt _ PInf = True"

definition js_gt :: "jsnum \<Rightarrow> jsnum \<Rightarrow> bool" where
  "js_gt a b = js_lt b a"

definition js_le :: "jsnum \<Rightarrow> jsnum \<Rightarrow> bool" where
  "js_le a b = (\<not> isNaN a \<and> \<not> isNaN b \<and> \<not> js_lt b a)"

definition js_ge :: "jsnum \<Rightarrow> jsnum \<Rightarrow> bool" where
  "js_ge a b = js_le b a"

text \<open>\<^verbatim>\<open>Math.max\<close> of two arguments and \<^verbatim>\<open>Math.abs\<close>.\<close>

definition Math_max :: "jsnum \<Rightarrow> jsnum \<Rightarrow> jsnum" where
  "Math_max a b = (if isNaN a \<or> isNaN b then NaN else if js_lt a b then b else a)"

fun Math_abs :: "jsnum \<Rightarrow> jsnum" where
  "Math_abs NaN = NaN"
| "Math_abs PInf = PInf"
| "Math_abs NInf = PInf"
| "Math_abs (Fin x) = Fin \<bar>x\<bar>"

section \<open>Reading numbers from strings\<close>

text \<open>
  \<^verbatim>\<open>parseInt\<close> and \<^verbatim>\<open>parseFloat\<close> are built-ins of the language; they are modelled after
  their definition in ECMA-262. A string is a list of bytes here, so the white space that
  is stripped is the ASCII white space. The value read is exact (a real number), not the
  nearest binary64 number.
\<close>

definition isWhiteSpace :: "char \<Rightarrow> bool" where
  "isWhiteSpace c = (c \<in> set [CHR '' '', CHR 0x09, CHR 0x0A, CHR 0x0B, CHR 0x0C, CHR 0x0D])"

definition trimStart :: "string \<Rightarrow> string" where
  "trimStart s = dropWhile isWhiteSpace s"

definition isDigit :: "char \<Rightarrow> bool" where
  "isDigit c = (c \<in> set ''0123456789'')"

definition isHexDigit :: "char \<Rightarrow> bool" where
  "isHexDigit c = (c \<in> set ''0123456789abcdefABCDEF'')"

definition digitVal :: "char \<Rightarrow> nat" where
  "digitVal c =
     (if isDigit c then of_char c - 48
      else if c \<in> set ''abcdef'' then of_char c - 87
      else of_char c - 55)"

definition radixValue :: "nat \<Rightarrow> string \<Rightarrow> nat" where
  "radixValue R Z = foldl (\<lambda>n c. R * n + digitVal c) 0 Z"

definition isSign :: "string \<Rightarrow> bool" where
  "isSign S = (S \<noteq> [] \<and> (hd S = CHR ''+'' \<or> hd S = CHR ''-''))"

definition isMinus :: "string \<Rightarrow> bool" where
  "isMinus S = (S \<noteq> [] \<and> hd S = CHR ''-'')"

text \<open>
  \<^verbatim>\<open>parseInt(string)\<close> with no radix: leading white space and a sign are removed, a prefix
  \<^verbatim>\<open>0x\<close> or \<^verbatim>\<open>0X\<close> selects radix 16, and the longest run of digits of the radix is the
  value; the result is \<open>NaN\<close> when that run is empty.
\<close>

definition parseInt :: "string \<Rightarrow> jsnum" where
  "parseInt string =
     (let S = trimStart string;
          sign = (if isMinus S then - 1 else 1 :: int);
          S1 = (if isSign S then tl S else S);
          hex = (take 2 S1 = ''0x'' \<or> take 2 S1 = ''0X'');
          S2 = (if hex then drop 2 S1 else S1);
          Z = takeWhile (if hex then isHexDigit else isDigit) S2
      in if Z = [] then NaN
         else Fin (of_int (sign * int (radixValue (if hex then 16 else 10) Z))))"

text \<open>The exponent part \<^verbatim>\<open>e\<close>, optional sign, digits; it counts only with a digit.\<close>

definition exponentPart :: "string \<Rightarrow> int" where
  "exponentPart r =
     (if r \<noteq> [] \<and> (hd r = CHR ''e'' \<or> hd r = CHR ''E'') then
        (let r3 = tl r;
             r4 = (if isSign r3 then tl r3 else r3);
             ds = takeWhile isDigit r4
         in if ds = [] then 0
            else if isMinus r3 then - int (radixValue 10 ds)
            else int (radixValue 10 ds))
      else 0)"

definition pow10 :: "int \<Rightarrow> real" where
  "pow10 e = (if 0 \<le> e then 10 ^ nat e else 1 / 10 ^ nat (- e))"

text \<open>
  \<^verbatim>\<open>parseFloat(string)\<close>: the longest prefix of the trimmed string that is a decimal
  literal (\<^verbatim>\<open>Infinity\<close>, or digits with an optional fraction and exponent, each with an
  optional sign); \<open>NaN\<close> when there is none.
\<close>

definition parseFloat :: "string \<Rightarrow> jsnum" where
  "parseFloat string =
     (let S = trimStart string;
          S1 = (if isSign S then tl S else S)
      in if take 8 S1 = ''Infinity'' then (if isMinus S then NInf else PInf)
         else
           (let ip = takeWhile isDigit S1;
                r1 = dropWhile isDigit S1;
                hasDot = (r1 \<noteq> [] \<and> hd r1 = CHR ''.'');
                fp = (if hasDot then takeWhile isDigit (tl r1) else []);
                r2 = (if hasDot then dropWhile isDigit (tl r1) else r1)
            in if ip = [] \<and> fp = [] then NaN
               else Fin ((if isMinus S then - 1 else 1)
                          * real (radixValue 10 (ip @ fp))
                          * pow10 (exponentPart r2 - int (length fp)))))"

section \<open>Writing percentages\<close>

text \<open>
  \<^verbatim>\<open>x.toFixed(1)\<close>: the special values print by name; a finite value prints its sign, then
  the integer \<open>n\<close> nearest to ten times its magnitude (the larger one on a tie) with a point
  before the last digit. From \<open>10\<^sup>2\<^sup>1\<close> on the language prints the shortest digits of the
  binary64 number in exponent notation, which this model does not have: the result is
  \<open>None\<close> there.
\<close>

function showNat :: "nat \<Rightarrow> string" where
  "showNat n = (if n < 10 then [''0123456789'' ! n] else showNat (n div 10) @ [''0123456789'' ! (n mod 10)])"
  by pat_completeness auto
termination
  by (relation "measure id") auto

definition toFixed1 :: "jsnum \<Rightarrow> string option" where
  "toFixed1 v =
     (case v of
        NaN \<Rightarrow> Some ''NaN''
      | PInf \<Rightarrow> Some ''Infinity''
      | NInf \<Rightarrow> Some ''-Infinity''
      | Fin x \<Rightarrow>
          if 10 ^ 21 \<le> \<bar>x\<bar> then None
          else
            (let s = (if x < 0 then ''-'' else '''');
                 n = nat \<lfloor>\<bar>x\<bar> * 10 + 1 / 2\<rfloor>
             in Some (s @ showNat (n div 10) @ ''.'' @ showNat (n mod 10))))"

section \<open>The calculator\<close>

record BloodTest =
  name :: string
  positiveLR :: jsnum
  negativeLR :: jsnum
  threshold :: jsnum

definition BLOOD_TESTS :: "BloodTest list" where
  "BLOOD_TESTS =
     [\<lparr>name = ''Neurofilament Light (NfL)'', positiveLR = Fin (25 / 10),
        negativeLR = Fin (5 / 10), threshold = Fin 20\<rparr>,
      \<lparr>name = ''Glial Fibrillary Acidic Protein (GFAP)'', positiveLR = Fin 5,
        negativeLR = Fin (1 / 10), threshold = Fin 15\<rparr>,
      \<lparr>name = ''Phosphorylated Tau 217 (pTau 217)'', positiveLR = Fin (93 / 10),
        negativeLR = Fin (46 / 100), threshold = Fin 10\<rparr>,
      \<lparr>name = ''Amyloid PET Scan'', positiveLR = Fin 12,
        negativeLR = Fin (2 / 10), threshold = Fin 5\<rparr>]"

definition getBaselineRisk :: "jsnum \<Rightarrow> jsnum" where
  "getBaselineRisk age =
     (if js_lt age (Fin 60) then Fin 3
      else if js_ge age (Fin 60) \<and> js_le age (Fin 65) then Fin 10
      else if js_ge age (Fin 66) \<and> js_le age (Fin 70) then Fin 15
      else if js_ge age (Fin 71) \<and> js_le age (Fin 75) then Fin 25
      else if js_ge age (Fin 76) \<and> js_le age (Fin 80) then Fin 35
      else if js_ge age (Fin 81) \<and> js_le age (Fin 85) then Fin 50
      else Fin 65)"

definition calculatePostTestProbability :: "jsnum \<Rightarrow> jsnum \<Rightarrow> jsnum" where
  "calculatePostTestProbability preTestProb likelihoodRatio =
     (let preTestOdds = js_div preTestProb (js_sub (Fin 1) preTestProb);
          postTestOdds = js_mul preTestOdds likelihoodRatio
      in js_div postTestOdds (js_add (Fin 1) postTestOdds))"

definition formatPercentage :: "jsnum \<Rightarrow> string option" where
  "formatPercentage v = toFixed1 (js_mul v (Fin 100))"

text \<open>
  \<^verbatim>\<open>calculateRisk\<close> ends in \<^verbatim>\<open>setResult({recommendation, details})\<close>; the model returns that
  object. The recommendation is the string of the source. The details are a template
  string built from the values below; the model keeps the values (each percentage is
  printed from its value by \<open>formatPercentage\<close>) and distinguishes the three shapes of
  the text: empty, the short text of the threshold branch, and the full text with the
  post-test probabilities.
\<close>

datatype details =
    NoDetails
  | BelowThreshold
      (patientAge: jsnum) (baselineRisk: jsnum) (risk: jsnum) (adjustedRisk: jsnum)
      (selected: BloodTest)
  | PostTest
      (patientAge: jsnum) (baselineRisk: jsnum) (risk: jsnum) (adjustedRisk: jsnum)
      (selected: BloodTest)
      (positiveProb: jsnum) (negativeProb: jsnum) (probabilityGap: jsnum)

record result =
  recommendation :: string
  details :: details

text \<open>
  The three arguments are the strings that reach \<^verbatim>\<open>parseFloat\<close>, \<^verbatim>\<open>parseInt\<close> and the
  lookup: the state variables themselves where the state holds strings, their
  \<^verbatim>\<open>toString()\<close> where it holds numbers.
\<close>

definition calculateRisk :: "string \<Rightarrow> string \<Rightarrow> string \<Rightarrow> result" where
  "calculateRisk initialRisk age selectedTest =
     (let risk = js_div (parseFloat initialRisk) (Fin 100);
          patientAge = parseInt age
      in if isNaN risk \<or> isNaN patientAge then
           \<lparr>recommendation = ''Please enter valid numbers for both fields.'',
            details = NoDetails\<rparr>
         else if selectedTest = [] then
           \<lparr>recommendation = ''Please select a dementia test to proceed.'',
            details = NoDetails\<rparr>
         else
           (let baselineRisk = js_div (getBaselineRisk patientAge) (Fin 100);
                adjustedRisk = Math_max risk baselineRisk
            in case find (\<lambda>t. name t = selectedTest) BLOOD_TESTS of
                 None \<Rightarrow>
                   \<lparr>recommendation = ''Error: Selected test not found.'',
                    details = NoDetails\<rparr>
               | Some test \<Rightarrow>
                   if js_lt (js_mul adjustedRisk (Fin 100)) (threshold test) then
                     \<lparr>recommendation = ''[NOT RECOMMENDED] '' @ name test,
                      details = BelowThreshold patientAge baselineRisk risk adjustedRisk test\<rparr>
                   else
                     (let positiveProb = calculatePostTestProbability adjustedRisk (positiveLR test);
                          negativeProb = calculatePostTestProbability adjustedRisk (negativeLR test);
                          probabilityGap = Math_abs (js_sub positiveProb negativeProb)
                      in \<lparr>recommendation =
                            (if js_gt probabilityGap (Fin (3 / 10))
                             then ''[RECOMMENDED] '' @ name test
                             else ''[NOT RECOMMENDED] '' @ name test),
                          details = PostTest patientAge baselineRisk risk adjustedRisk test
                                      positiveProb negativeProb probabilityGap\<rparr>)))"

text \<open>
  The page marks a result as recommended by
  \<^verbatim>\<open>result.recommendation.startsWith('[RECOMMENDED]')\<close>.
\<close>

definition isRecommended :: "result \<Rightarrow> bool" where
  "isRecommended r = (take 13 (recommendation r) = ''[RECOMMENDED]'')"

section \<open>The baseline risk\<close>

lemma getBaselineRisk_Fin:
  "getBaselineRisk (Fin x) =
     (if x < 60 then Fin 3 else if x \<le> 65 then Fin 10
      else if 66 \<le> x \<and> x \<le> 70 then Fin 15
      else if 71 \<le> x \<and> x \<le> 75 then Fin 25
      else if 76 \<le> x \<and> x \<le> 80 then Fin 35
      else if 81 \<le> x \<and> x \<le> 85 then Fin 50 else Fin 65)"
  by (simp add: getBaselineRisk_def js_ge_def js_le_def)

lemma getBaselineRisk_int:
  "getBaselineRisk (Fin (real_of_int a)) =
     (if a < 60 then Fin 3 else if a \<le> 65 then Fin 10
      else if a \<le> 70 then Fin 15
      else if a \<le> 75 then Fin 25
      else if a \<le> 80 then Fin 35
      else if a \<le> 85 then Fin 50 else Fin 65)"
  by (simp add: getBaselineRisk_Fin)

lemma getBaselineRisk_range:
  "getBaselineRisk v \<in> {Fin 3, Fin 10, Fin 15, Fin 25, Fin 35, Fin 50, Fin 65}"
  by (simp add: getBaselineRisk_def)

text \<open>
  Claim C3. Over integer ages the baseline risk never decreases as the age grows; its
  values at 59, 60, 85 and 86 are 3, 10, 50 and 65. The lookup is total: every number,
  also a negative age, a fraction, an infinity or \<open>NaN\<close>, gets one of the seven risks and
  no error; ages below 60 (the negative ones too) get 3, ages above 85 get 65, and a
  value that matches none of the six earlier bands gets 65.
\<close>

theorem baselineRisk_monotone:
  fixes a b :: int
  shows "(a \<le> b \<longrightarrow> js_le (getBaselineRisk (Fin (real_of_int a))) (getBaselineRisk (Fin (real_of_int b))))
    \<and> getBaselineRisk (Fin 59) = Fin 3 \<and> getBaselineRisk (Fin 60) = Fin 10
    \<and> getBaselineRisk (Fin 85) = Fin 50 \<and> getBaselineRisk (Fin 86) = Fin 65
    \<and> getBaselineRisk v \<in> {Fin 3, Fin 10, Fin 15, Fin 25, Fin 35, Fin 50, Fin 65}
    \<and> (a < 60 \<longrightarrow> getBaselineRisk (Fin (real_of_int a)) = Fin 3)
    \<and> (85 < a \<longrightarrow> getBaselineRisk (Fin (real_of_int a)) = Fin 65)
    \<and> (\<not> js_lt v (Fin 60) \<and> \<not> (js_ge v (Fin 60) \<and> js_le v (Fin 65))
         \<and> \<not> (js_ge v (Fin 66) \<and> js_le v (Fin 70)) \<and> \<not> (js_ge v (Fin 71) \<and> js_le v (Fin 75))
         \<and> \<not> (js_ge v (Fin 76) \<and> js_le v (Fin 80)) \<and> \<not> (js_ge v (Fin 81) \<and> js_le v (Fin 85))
        \<longrightarrow> getBaselineRisk v = Fin 65)"
proof -
  have mono: "a \<le> b \<longrightarrow> js_le (getBaselineRisk (Fin (real_of_int a))) (getBaselineRisk (Fin (real_of_int b)))"
    unfolding getBaselineRisk_int by (simp add: js_le_def)
  have pts: "getBaselineRisk (Fin 59) = Fin 3 \<and> getBaselineRisk (Fin 60) = Fin 10
    \<and> getBaselineRisk (Fin 85) = Fin 50 \<and> getBaselineRisk (Fin 86) = Fin 65"
    by (simp add: getBaselineRisk_Fin)
  have lo: "a < 60 \<longrightarrow> getBaselineRisk (Fin (real_of_int a)) = Fin 3"
    by (simp add: getBaselineRisk_int)
  have hi: "85 < a \<longrightarrow> getBaselineRisk (Fin (real_of_int a)) = Fin 65"
    by (simp add: getBaselineRisk_int)
  have fall: "\<not> js_lt v (Fin 60) \<and> \<not> (js_ge v (Fin 60) \<and> js_le v (Fin 65))
         \<and> \<not> (js_ge v (Fin 66) \<and> js_le v (Fin 70)) \<and> \<not> (js_ge v (Fin 71) \<and> js_le v (Fin 75))
         \<and> \<not> (js_ge v (Fin 76) \<and> js_le v (Fin 80)) \<and> \<not> (js_ge v (Fin 81) \<and> js_le v (Fin 85))
        \<longrightarrow> getBaselineRisk v = Fin 65"
    by (simp add: getBaselineRisk_def)
  from mono pts lo hi fall getBaselineRisk_range show ?thesis by blast
qed

theorem baselineRisk_monotone_witness:
  "(64::int) \<le> 66
   \<and> js_le (getBaselineRisk (Fin (real_of_int 64))) (getBaselineRisk (Fin (real_of_int 66)))
   \<and> (- 5 :: int) < 60 \<and> getBaselineRisk (Fin (real_of_int (- 5))) = Fin 3
   \<and> (85 :: int) < 120 \<and> getBaselineRisk (Fin (real_of_int 120)) = Fin 65
   \<and> getBaselineRisk (Fin (131 / 2)) = Fin 65"
proof -
  have h1: "(64::int) \<le> 66" and h2: "(- 5 :: int) < 60" and h3: "(85 :: int) < 120"
    by simp_all
  have c1: "js_le (getBaselineRisk (Fin (real_of_int 64))) (getBaselineRisk (Fin (real_of_int 66)))"
    by (rule baselineRisk_monotone [of 64 66 NaN, THEN conjunct1, THEN mp]) (rule h1)
  have c2: "getBaselineRisk (Fin (real_of_int (- 5))) = Fin 3"
    by (rule baselineRisk_monotone [of "- 5" 0 NaN, THEN conjunct2, THEN conjunct2, THEN conjunct2,
          THEN conjunct2, THEN conjunct2, THEN conjunct2, THEN conjunct1, THEN mp]) (rule h2)
  have c3: "getBaselineRisk (Fin (real_of_int 120)) = Fin 65"
    by (rule baselineRisk_monotone [of 120 0 NaN, THEN conjunct2, THEN conjunct2, THEN conjunct2,
          THEN conjunct2, THEN conjunct2, THEN conjunct2, THEN conjunct2, THEN conjunct1, THEN mp])
       (rule h3)
  have c4: "getBaselineRisk (Fin (131 / 2)) = Fin 65"
    by (rule baselineRisk_monotone [of 0 0 "Fin (131 / 2)", THEN conjunct2, THEN conjunct2,
          THEN conjunct2, THEN conjunct2, THEN conjunct2, THEN conjunct2, THEN conjunct2,
          THEN conjunct2, THEN mp])
       (simp add: js_ge_def js_le_def)
  from h1 c1 h2 c2 h3 c3 c4 show ?thesis by (intro conjI)
qed

section \<open>Auxiliary facts about the calculator\<close>

lemmas parse_defs = parseInt_def parseFloat_def exponentPart_def pow10_def trimStart_def
  isWhiteSpace_def isMinus_def isSign_def isDigit_def isHexDigit_def radixValue_def digitVal_def


lemma risk_isNaN: "isNaN (js_div v (Fin 100)) = isNaN v"
  by (cases v) simp_all


lemma find_SomeD: "find P xs = Some x \<Longrightarrow> P x \<and> x \<in> set xs"
  by (induction xs) (auto split: if_splits)

lemma catalog_cases:
  assumes "t \<in> set BLOOD_TESTS"
  shows "t = \<lparr>name = ''Neurofilament Light (NfL)'', positiveLR = Fin (25 / 10),
        negativeLR = Fin (5 / 10), threshold = Fin 20\<rparr>
    \<or> t = \<lparr>name = ''Glial Fibrillary Acidic Protein (GFAP)'', positiveLR = Fin 5,
        negativeLR = Fin (1 / 10), threshold = Fin 15\<rparr>
    \<or> t = \<lparr>name = ''Phosphorylated Tau 217 (pTau 217)'', positiveLR = Fin (93 / 10),
        negativeLR = Fin (46 / 100), threshold = Fin 10\<rparr>
    \<or> t = \<lparr>name = ''Amyloid PET Scan'', positiveLR = Fin 12,
        negativeLR = Fin (2 / 10), threshold = Fin 5\<rparr>"
  using assms unfolding BLOOD_TESTS_def set_simps insert_iff empty_iff by (elim disjE) simp_all

lemma catalog_threshold:
  assumes "t \<in> set BLOOD_TESTS"
  shows "threshold t \<in> {Fin 20, Fin 15, Fin 10, Fin 5}"
  using catalog_cases [OF assms] by (elim disjE) simp_all

lemma catalog_name:
  assumes "t \<in> set BLOOD_TESTS"
  shows "name t \<noteq> []"
  using catalog_cases [OF assms] by (elim disjE) simp_all

lemma find_catalog:
  assumes "find (\<lambda>t. name t = sel) BLOOD_TESTS = Some t"
  shows "name t = sel \<and> sel \<noteq> [] \<and> threshold t \<in> {Fin 20, Fin 15, Fin 10, Fin 5}"
  using find_SomeD [OF assms] catalog_name [of t] catalog_threshold [of t] by simp

lemma calculateRisk_PostTest:
  assumes "details (calculateRisk s a sel) = PostTest age b r adj t pos neg gap"
  shows "r = js_div (parseFloat s) (Fin 100) \<and> \<not> isNaN r \<and> age = parseInt a \<and> \<not> isNaN age
    \<and> b = js_div (getBaselineRisk age) (Fin 100) \<and> adj = Math_max r b
    \<and> find (\<lambda>t. name t = sel) BLOOD_TESTS = Some t
    \<and> \<not> js_lt (js_mul adj (Fin 100)) (threshold t)
    \<and> pos = calculatePostTestProbability adj (positiveLR t)
    \<and> neg = calculatePostTestProbability adj (negativeLR t)
    \<and> gap = Math_abs (js_sub pos neg)
    \<and> recommendation (calculateRisk s a sel) =
        (if js_gt gap (Fin (3 / 10)) then ''[RECOMMENDED] '' @ name t
         else ''[NOT RECOMMENDED] '' @ name t)"
proof -
  define r' where "r' = js_div (parseFloat s) (Fin 100)"
  define age' where "age' = parseInt a"
  define b' where "b' = js_div (getBaselineRisk age') (Fin 100)"
  define adj' where "adj' = Math_max r' b'"
  have nan: "\<not> (isNaN r' \<or> isNaN age')"
  proof
    assume "isNaN r' \<or> isNaN age'"
    then have "details (calculateRisk s a sel) = NoDetails"
      unfolding r'_def age'_def by (simp add: calculateRisk_def Let_def)
    with assms show False by simp
  qed
  have sel: "sel \<noteq> []"
  proof
    assume "sel = []"
    then have "details (calculateRisk s a sel) = NoDetails"
      by (simp add: calculateRisk_def Let_def)
    with assms show False by simp
  qed
  obtain t' where found: "find (\<lambda>t. name t = sel) BLOOD_TESTS = Some t'"
  proof (cases "find (\<lambda>t. name t = sel) BLOOD_TESTS")
    case None
    then have "details (calculateRisk s a sel) = NoDetails"
      by (simp add: calculateRisk_def Let_def)
    with assms show ?thesis by simp
  next
    case (Some t')
    with that show ?thesis .
  qed
  have above: "\<not> js_lt (js_mul adj' (Fin 100)) (threshold t')"
  proof
    assume "js_lt (js_mul adj' (Fin 100)) (threshold t')"
    then have "details (calculateRisk s a sel) = BelowThreshold age' b' r' adj' t'"
      using nan sel found unfolding r'_def age'_def b'_def adj'_def
      by (simp add: calculateRisk_def Let_def)
    with assms show False by simp
  qed
  define pos' where "pos' = calculatePostTestProbability adj' (positiveLR t')"
  define neg' where "neg' = calculatePostTestProbability adj' (negativeLR t')"
  define gap' where "gap' = Math_abs (js_sub pos' neg')"
  have full: "calculateRisk s a sel =
      \<lparr>recommendation = (if js_gt gap' (Fin (3 / 10)) then ''[RECOMMENDED] '' @ name t'
                          else ''[NOT RECOMMENDED] '' @ name t'),
       details = PostTest age' b' r' adj' t' pos' neg' gap'\<rparr>"
    using nan sel found above
    unfolding r'_def age'_def b'_def adj'_def pos'_def neg'_def gap'_def
    by (simp add: calculateRisk_def Let_def)
  from assms full have eqs: "age = age'" "b = b'" "r = r'" "adj = adj'" "t = t'"
      "pos = pos'" "neg = neg'" "gap = gap'"
    by simp_all
  show ?thesis
    unfolding eqs using nan found above full
    unfolding r'_def age'_def b'_def adj'_def pos'_def neg'_def gap'_def
    by simp
qed


lemmas eval_defs = calculateRisk_def Let_def parse_defs BLOOD_TESTS_def getBaselineRisk_def
  js_ge_def js_le_def js_gt_def js_sub_def Math_max_def calculatePostTestProbability_def

lemma eval_50_70_pTau:
  "calculateRisk ''50'' ''70'' ''Phosphorylated Tau 217 (pTau 217)'' =
     \<lparr>recommendation = ''[RECOMMENDED] Phosphorylated Tau 217 (pTau 217)'',
      details = PostTest (Fin 70) (Fin (15 / 100)) (Fin (50 / 100)) (Fin (50 / 100))
        \<lparr>name = ''Phosphorylated Tau 217 (pTau 217)'', positiveLR = Fin (93 / 10),
          negativeLR = Fin (46 / 100), threshold = Fin 10\<rparr>
        (Fin (93 / 103)) (Fin (46 / 146)) (Fin (93 / 103 - 46 / 146))\<rparr>"
  by (simp add: eval_defs)

lemma calculateRisk_unfold:
  "calculateRisk s a sel =
     (if isNaN (parseFloat s) \<or> isNaN (parseInt a) then
        \<lparr>recommendation = ''Please enter valid numbers for both fields.'', details = NoDetails\<rparr>
      else if sel = [] then
        \<lparr>recommendation = ''Please select a dementia test to proceed.'', details = NoDetails\<rparr>
      else case find (\<lambda>t. name t = sel) BLOOD_TESTS of
             None \<Rightarrow> \<lparr>recommendation = ''Error: Selected test not found.'', details = NoDetails\<rparr>
           | Some t \<Rightarrow>
               if js_lt (js_mul (Math_max (js_div (parseFloat s) (Fin 100))
                     (js_div (getBaselineRisk (parseInt a)) (Fin 100))) (Fin 100)) (threshold t)
               then \<lparr>recommendation = ''[NOT RECOMMENDED] '' @ name t,
                     details = BelowThreshold (parseInt a)
                       (js_div (getBaselineRisk (parseInt a)) (Fin 100))
                       (js_div (parseFloat s) (Fin 100))
                       (Math_max (js_div (parseFloat s) (Fin 100))
                          (js_div (getBaselineRisk (parseInt a)) (Fin 100))) t\<rparr>
               else \<lparr>recommendation =
                       (if js_gt (Math_abs (js_sub
                             (calculatePostTestProbability (Math_max (js_div (parseFloat s) (Fin 100))
                                (js_div (getBaselineRisk (parseInt a)) (Fin 100))) (positiveLR t))
                             (calculatePostTestProbability (Math_max (js_div (parseFloat s) (Fin 100))
                                (js_div (getBaselineRisk (parseInt a)) (Fin 100))) (negativeLR t))))
                           (Fin (3 / 10))
                        then ''[RECOMMENDED] '' @ name t else ''[NOT RECOMMENDED] '' @ name t),
                     details = PostTest (parseInt a)
                       (js_div (getBaselineRisk (parseInt a)) (Fin 100))
                       (js_div (parseFloat s) (Fin 100))
                       (Math_max (js_div (parseFloat s) (Fin 100))
                          (js_div (getBaselineRisk (parseInt a)) (Fin 100))) t
                       (calculatePostTestProbability (Math_max (js_div (parseFloat s) (Fin 100))
                          (js_div (getBaselineRisk (parseInt a)) (Fin 100))) (positiveLR t))
                       (calculatePostTestProbability (Math_max (js_div (parseFloat s) (Fin 100))
                          (js_div (getBaselineRisk (parseInt a)) (Fin 100))) (negativeLR t))
                       (Math_abs (js_sub
                             (calculatePostTestProbability (Math_max (js_div (parseFloat s) (Fin 100))
                                (js_div (getBaselineRisk (parseInt a)) (Fin 100))) (positiveLR t))
                             (calculatePostTestProbability (Math_max (js_div (parseFloat s) (Fin 100))
                                (js_div (getBaselineRisk (parseInt a)) (Fin 100))) (negativeLR t))))\<rparr>)"
  by (simp add: calculateRisk_def Let_def risk_isNaN split: option.split)

section \<open>A worked example\<close>

text \<open>
  Claim C8. With clinician probability 50, age 70 and the test
  \<open>Phosphorylated Tau 217 (pTau 217)\<close> (LR+ 9.3, LR- 0.46, threshold 10) the adjusted
  probability is the larger of 50\% and 15\%, printed \<open>50.0\<close>; the pre-test odds are 1;
  the post-test probability after a positive result is \<open>93/103\<close>, about 0.9029, printed
  \<open>90.3\<close>; after a negative result it is \<open>46/146\<close>, about 0.3151, printed \<open>31.5\<close>;
  the gap prints as \<open>58.8\<close> and exceeds 30 points, and the test is recommended.
\<close>

theorem worked_example_pTau217:
  "adjustedRisk (details (calculateRisk ''50'' ''70'' ''Phosphorylated Tau 217 (pTau 217)''))
     = Math_max (Fin (50 / 100)) (Fin (15 / 100))
   \<and> formatPercentage (adjustedRisk (details
         (calculateRisk ''50'' ''70'' ''Phosphorylated Tau 217 (pTau 217)''))) = Some ''50.0''
   \<and> js_div (Fin (50 / 100)) (js_sub (Fin 1) (Fin (50 / 100))) = Fin 1
   \<and> positiveProb (details (calculateRisk ''50'' ''70'' ''Phosphorylated Tau 217 (pTau 217)''))
       = Fin (93 / 103)
   \<and> \<bar>93 / 103 - 9029 / 10000\<bar> < (1 / 10000 :: real)
   \<and> formatPercentage (positiveProb (details
         (calculateRisk ''50'' ''70'' ''Phosphorylated Tau 217 (pTau 217)''))) = Some ''90.3''
   \<and> negativeProb (details (calculateRisk ''50'' ''70'' ''Phosphorylated Tau 217 (pTau 217)''))
       = Fin (46 / 146)
   \<and> \<bar>46 / 146 - 3151 / 10000\<bar> < (1 / 10000 :: real)
   \<and> formatPercentage (negativeProb (details
         (calculateRisk ''50'' ''70'' ''Phosphorylated Tau 217 (pTau 217)''))) = Some ''31.5''
   \<and> formatPercentage (probabilityGap (details
         (calculateRisk ''50'' ''70'' ''Phosphorylated Tau 217 (pTau 217)''))) = Some ''58.8''
   \<and> js_gt (js_mul (probabilityGap (details
         (calculateRisk ''50'' ''70'' ''Phosphorylated Tau 217 (pTau 217)''))) (Fin 100)) (Fin 30)
   \<and> recommendation (calculateRisk ''50'' ''70'' ''Phosphorylated Tau 217 (pTau 217)'')
       = ''[RECOMMENDED] Phosphorylated Tau 217 (pTau 217)''
   \<and> isRecommended (calculateRisk ''50'' ''70'' ''Phosphorylated Tau 217 (pTau 217)'')"
  unfolding eval_50_70_pTau
  by (simp add: formatPercentage_def toFixed1_def Math_max_def js_sub_def js_gt_def isRecommended_def)

section \<open>The odds transform\<close>




section \<open>The recommendation rule\<close>








section \<open>The threshold gate\<close>

lemma baseline_bounds:
  "\<exists>c. getBaselineRisk v = Fin c \<and> 3 \<le> c \<and> c \<le> 65"
  using getBaselineRisk_range [of v] by (elim insertE emptyE) simp_all





section \<open>The order of the checks\<close>

text \<open>
  Claim C4, as amended. The checks have a fixed order. If the clinician probability or
  the patient age parses to \<open>NaN\<close>, the result is exactly the message
  \<open>Please enter valid numbers for both fields.\<close>, whatever the other fields are;
  otherwise, if the selected test name is empty, it is exactly
  \<open>Please select a dementia test to proceed.\<close>; otherwise, if the name is not in the
  catalog, it is \<open>Error: Selected test not found.\<close>; otherwise the result names the
  test as recommended or not recommended. The first check is \<open>isNaN\<close>: a probability
  that parses to an infinity passes it.
\<close>

theorem error_precedence:
  "(isNaN (parseFloat s) \<or> isNaN (parseInt a) \<longrightarrow>
      calculateRisk s a sel =
        \<lparr>recommendation = ''Please enter valid numbers for both fields.'', details = NoDetails\<rparr>)
   \<and> (\<not> isNaN (parseFloat s) \<and> \<not> isNaN (parseInt a) \<and> sel = [] \<longrightarrow>
      calculateRisk s a sel =
        \<lparr>recommendation = ''Please select a dementia test to proceed.'', details = NoDetails\<rparr>)
   \<and> (\<not> isNaN (parseFloat s) \<and> \<not> isNaN (parseInt a) \<and> sel \<noteq> []
        \<and> find (\<lambda>t. name t = sel) BLOOD_TESTS = None \<longrightarrow>
      calculateRisk s a sel =
        \<lparr>recommendation = ''Error: Selected test not found.'', details = NoDetails\<rparr>)
   \<and> (\<not> isNaN (parseFloat s) \<and> \<not> isNaN (parseInt a) \<and> sel \<noteq> []
        \<and> find (\<lambda>t. name t = sel) BLOOD_TESTS = Some t \<longrightarrow>
      recommendation (calculateRisk s a sel) = ''[RECOMMENDED] '' @ name t
      \<or> recommendation (calculateRisk s a sel) = ''[NOT RECOMMENDED] '' @ name t)"
proof (intro conjI impI)
  assume "isNaN (parseFloat s) \<or> isNaN (parseInt a)"
  then show "calculateRisk s a sel =
        \<lparr>recommendation = ''Please enter valid numbers for both fields.'', details = NoDetails\<rparr>"
    unfolding calculateRisk_unfold by simp
next
  assume "\<not> isNaN (parseFloat s) \<and> \<not> isNaN (parseInt a) \<and> sel = []"
  then show "calculateRisk s a sel =
        \<lparr>recommendation = ''Please select a dementia test to proceed.'', details = NoDetails\<rparr>"
    unfolding calculateRisk_unfold by simp
next
  assume "\<not> isNaN (parseFloat s) \<and> \<not> isNaN (parseInt a) \<and> sel \<noteq> []
        \<and> find (\<lambda>t. name t = sel) BLOOD_TESTS = None"
  then show "calculateRisk s a sel =
        \<lparr>recommendation = ''Error: Selected test not found.'', details = NoDetails\<rparr>"
    unfolding calculateRisk_unfold by simp
next
  assume "\<not> isNaN (parseFloat s) \<and> \<not> isNaN (parseInt a) \<and> sel \<noteq> []
        \<and> find (\<lambda>t. name t = sel) BLOOD_TESTS = Some t"
  then show "recommendation (calculateRisk s a sel) = ''[RECOMMENDED] '' @ name t
      \<or> recommendation (calculateRisk s a sel) = ''[NOT RECOMMENDED] '' @ name t"
    unfolding calculateRisk_unfold by simp
qed

theorem error_precedence_witness:
  "isNaN (parseFloat [])
   \<and> calculateRisk [] ''70'' ''Amyloid PET Scan'' =
        \<lparr>recommendation = ''Please enter valid numbers for both fields.'', details = NoDetails\<rparr>
   \<and> isNaN (parseInt ''abc'')
   \<and> calculateRisk ''50'' ''abc'' [] =
        \<lparr>recommendation = ''Please enter valid numbers for both fields.'', details = NoDetails\<rparr>
   \<and> \<not> isNaN (parseFloat ''50'') \<and> \<not> isNaN (parseInt ''70'')
   \<and> calculateRisk ''50'' ''70'' [] =
        \<lparr>recommendation = ''Please select a dementia test to proceed.'', details = NoDetails\<rparr>
   \<and> find (\<lambda>t. name t = ''MRI'') BLOOD_TESTS = None
   \<and> calculateRisk ''50'' ''70'' ''MRI'' =
        \<lparr>recommendation = ''Error: Selected test not found.'', details = NoDetails\<rparr>"
proof -
  have n1: "isNaN (parseFloat [])" by (simp add: parse_defs)
  have n2: "isNaN (parseInt ''abc'')" by (simp add: parse_defs)
  have v1: "\<not> isNaN (parseFloat ''50'')" by (simp add: parse_defs)
  have v2: "\<not> isNaN (parseInt ''70'')" by (simp add: parse_defs)
  have f: "find (\<lambda>t. name t = ''MRI'') BLOOD_TESTS = None" by (simp add: BLOOD_TESTS_def)
  have r1: "calculateRisk [] ''70'' ''Amyloid PET Scan'' =
        \<lparr>recommendation = ''Please enter valid numbers for both fields.'', details = NoDetails\<rparr>"
    using error_precedence [of "[]" "''70''" "''Amyloid PET Scan''", THEN conjunct1] n1 by simp
  have r2: "calculateRisk ''50'' ''abc'' [] =
        \<lparr>recommendation = ''Please enter valid numbers for both fields.'', details = NoDetails\<rparr>"
    using error_precedence [of "''50''" "''abc''" "[]", THEN conjunct1] n2 by simp
  have r3: "calculateRisk ''50'' ''70'' [] =
        \<lparr>recommendation = ''Please select a dementia test to proceed.'', details = NoDetails\<rparr>"
    using error_precedence [of "''50''" "''70''" "[]", THEN conjunct2, THEN conjunct1] v1 v2 by simp
  have r4: "calculateRisk ''50'' ''70'' ''MRI'' =
        \<lparr>recommendation = ''Error: Selected test not found.'', details = NoDetails\<rparr>"
    using error_precedence [of "''50''" "''70''" "''MRI''", THEN conjunct2, THEN conjunct2, THEN conjunct1]
      v1 v2 f by simp
  from n1 r1 n2 r2 v1 v2 r3 f r4 show ?thesis by (intro conjI)
qed

lemma eval_Infinity_70_amyloid:
  "calculateRisk ''Infinity'' ''70'' ''Amyloid PET Scan'' =
     \<lparr>recommendation = ''[NOT RECOMMENDED] Amyloid PET Scan'',
      details = PostTest (Fin 70) (Fin (15 / 100)) PInf PInf
        \<lparr>name = ''Amyloid PET Scan'', positiveLR = Fin 12,
          negativeLR = Fin (2 / 10), threshold = Fin 5\<rparr>
        NaN NaN NaN\<rparr>"
  by (simp add: eval_defs)

text \<open>
  Counterexample to claim C4 as stated: the clinician probability \<open>Infinity\<close> does not
  parse to a finite number, and the result is not the message for invalid numbers.
\<close>

theorem infinite_probability_not_rejected:
  "parseFloat ''Infinity'' = PInf
   \<and> recommendation (calculateRisk ''Infinity'' ''70'' ''Amyloid PET Scan'')
        = ''[NOT RECOMMENDED] Amyloid PET Scan''
   \<and> recommendation (calculateRisk ''Infinity'' ''70'' ''Amyloid PET Scan'')
        \<noteq> ''Please enter valid numbers for both fields.''"
  unfolding eval_Infinity_70_amyloid by (simp add: parse_defs)


section \<open>Probabilities at and beyond the ends of the scale\<close>

lemma postTest_at_one: "calculatePostTestProbability (Fin 1) lr = NaN"
  by (cases lr) (simp_all add: calculatePostTestProbability_def js_sub_def Let_def)

lemma threshold_le_100:
  assumes "find (\<lambda>t. name t = sel) BLOOD_TESTS = Some t"
  shows "\<exists>th. threshold t = Fin th \<and> th \<le> 20"
  using find_catalog [OF assms] by (elim conjE insertE emptyE) simp_all

lemma eval_100_50_amyloid:
  "calculateRisk ''100'' ''50'' ''Amyloid PET Scan'' =
     \<lparr>recommendation = ''[NOT RECOMMENDED] Amyloid PET Scan'',
      details = PostTest (Fin 50) (Fin (3 / 100)) (Fin 1) (Fin 1)
        \<lparr>name = ''Amyloid PET Scan'', positiveLR = Fin 12,
          negativeLR = Fin (2 / 10), threshold = Fin 5\<rparr>
        NaN NaN NaN\<rparr>"
  by (simp add: eval_defs)

text \<open>
  Claim C6. At a pre-test probability of exactly 1 the odds conversion divides by zero
  (the odds are infinite) and the post-test probability is \<open>NaN\<close> for every likelihood
  ratio. The calculation has no guard for it: with a clinician probability that parses to
  100, an age that parses and a test of the catalog, the adjusted probability 1 reaches
  the odds transform and the result is not an error but a not-recommended result whose
  post-test probabilities and gap are \<open>NaN\<close>.
\<close>

theorem probability_100_unguarded:
  assumes "parseFloat s = Fin 100" and "parseInt a = Fin n"
    and "find (\<lambda>t. name t = sel) BLOOD_TESTS = Some t"
  shows "calculatePostTestProbability (Fin 1) lr = NaN
       \<and> js_div (Fin 1) (js_sub (Fin 1) (Fin 1)) = PInf
       \<and> calculateRisk s a sel =
           \<lparr>recommendation = ''[NOT RECOMMENDED] '' @ name t,
            details = PostTest (Fin n) (js_div (getBaselineRisk (Fin n)) (Fin 100)) (Fin 1) (Fin 1) t
                        (calculatePostTestProbability (Fin 1) (positiveLR t))
                        (calculatePostTestProbability (Fin 1) (negativeLR t)) NaN\<rparr>
       \<and> positiveProb (details (calculateRisk s a sel)) = NaN
       \<and> negativeProb (details (calculateRisk s a sel)) = NaN"
proof -
  have sel: "sel \<noteq> []" using find_catalog [OF assms(3)] by simp
  obtain c where c: "getBaselineRisk (Fin n) = Fin c" "c \<le> 65"
    using baseline_bounds [of "Fin n"] by (elim exE conjE)
  obtain th where th: "threshold t = Fin th" "th \<le> 20"
    using threshold_le_100 [OF assms(3)] by (elim exE conjE)
  have adj: "Math_max (js_div (parseFloat s) (Fin 100))
               (js_div (getBaselineRisk (parseInt a)) (Fin 100)) = Fin 1"
    unfolding assms c using c(2) by (simp add: Math_max_def)
  have lt: "\<not> js_lt (js_mul (Fin 1) (Fin 100)) (threshold t)"
    unfolding th using th(2) by simp
  have res: "calculateRisk s a sel =
           \<lparr>recommendation = ''[NOT RECOMMENDED] '' @ name t,
            details = PostTest (Fin n) (js_div (getBaselineRisk (Fin n)) (Fin 100)) (Fin 1) (Fin 1) t
                        (calculatePostTestProbability (Fin 1) (positiveLR t))
                        (calculatePostTestProbability (Fin 1) (negativeLR t)) NaN\<rparr>"
    unfolding calculateRisk_unfold adj using lt sel assms
    by (simp add: postTest_at_one js_sub_def js_gt_def)
  have odds: "js_div (Fin 1) (js_sub (Fin 1) (Fin 1)) = PInf" by (simp add: js_sub_def)
  have p: "positiveProb (details (calculateRisk s a sel)) = NaN"
    unfolding res by (simp add: postTest_at_one)
  have q: "negativeProb (details (calculateRisk s a sel)) = NaN"
    unfolding res by (simp add: postTest_at_one)
  from postTest_at_one odds res p q show ?thesis by (intro conjI)
qed

theorem probability_100_unguarded_witness:
  "parseFloat ''100'' = Fin 100 \<and> parseInt ''50'' = Fin 50
   \<and> find (\<lambda>t. name t = ''Amyloid PET Scan'') BLOOD_TESTS =
        Some \<lparr>name = ''Amyloid PET Scan'', positiveLR = Fin 12,
          negativeLR = Fin (2 / 10), threshold = Fin 5\<rparr>
   \<and> positiveProb (details (calculateRisk ''100'' ''50'' ''Amyloid PET Scan'')) = NaN
   \<and> negativeProb (details (calculateRisk ''100'' ''50'' ''Amyloid PET Scan'')) = NaN"
proof -
  have h1: "parseFloat ''100'' = Fin 100" by (simp add: parse_defs)
  have h2: "parseInt ''50'' = Fin 50" by (simp add: parse_defs)
  have h3: "find (\<lambda>t. name t = ''Amyloid PET Scan'') BLOOD_TESTS =
        Some \<lparr>name = ''Amyloid PET Scan'', positiveLR = Fin 12,
          negativeLR = Fin (2 / 10), threshold = Fin 5\<rparr>"
    by (simp add: BLOOD_TESTS_def)
  note th = probability_100_unguarded [OF h1 h2 h3, of NaN]
  from th have p: "positiveProb (details (calculateRisk ''100'' ''50'' ''Amyloid PET Scan'')) = NaN"
    by (elim conjE)
  from th have q: "negativeProb (details (calculateRisk ''100'' ''50'' ''Amyloid PET Scan'')) = NaN"
    by (elim conjE)
  from h1 h2 h3 p q show ?thesis by (intro conjI)
qed

text \<open>
  Counterexample to claim C7 as stated: with clinician probability 100, age 50 and
  \<open>Amyloid PET Scan\<close> the probability passed to the odds transform is 1, which is not
  strictly below 1.
\<close>

theorem probability_100_reaches_odds_transform:
  "adjustedRisk (details (calculateRisk ''100'' ''50'' ''Amyloid PET Scan'')) = Fin 1
   \<and> positiveProb (details (calculateRisk ''100'' ''50'' ''Amyloid PET Scan''))
        = calculatePostTestProbability (Fin 1) (Fin 12)
   \<and> \<not> js_lt (Fin 1) (Fin 1)"
  unfolding eval_100_50_amyloid by (simp add: postTest_at_one)

text \<open>
  Claim C7, as amended. Whenever the calculation reaches the odds transform, the
  probability passed to it is the adjusted pre-test probability; it is at least 0.03,
  hence strictly above 0, because the baseline risk is at least 3\%; and it is strictly
  below 1 exactly if the clinician probability is strictly below 100: the calculation
  itself places no upper bound on it.
\<close>

theorem adjusted_probability_bounds:
  assumes "details (calculateRisk s a sel) = PostTest age b r adj t pos neg gap"
  shows "pos = calculatePostTestProbability adj (positiveLR t)
       \<and> neg = calculatePostTestProbability adj (negativeLR t)
       \<and> adj = Math_max (js_div (parseFloat s) (Fin 100)) (js_div (getBaselineRisk (parseInt a)) (Fin 100))
       \<and> js_le (Fin (3 / 100)) adj
       \<and> js_lt (Fin 0) adj
       \<and> (js_lt adj (Fin 1) \<longleftrightarrow> js_lt (parseFloat s) (Fin 100))"
proof -
  note pt = calculateRisk_PostTest [OF assms]
  obtain c where c: "getBaselineRisk age = Fin c" "3 \<le> c" "c \<le> 65"
    using baseline_bounds [of age] by (elim exE conjE)
  from pt have b0: "b = js_div (getBaselineRisk age) (Fin 100)" by (elim conjE)
  have b: "b = Fin (c / 100)" unfolding b0 c by simp
  from pt have r1: "r = js_div (parseFloat s) (Fin 100)" by (elim conjE)
  from pt have r2: "\<not> isNaN r" by (elim conjE)
  note r = r1 r2
  from pt have adj: "adj = Math_max r b" by (elim conjE)
  from pt have age: "age = parseInt a" by (elim conjE)
  have lo: "js_le (Fin (3 / 100)) adj"
    unfolding adj b using r(2) c by (cases r) (simp_all add: Math_max_def js_le_def)
  have pos0: "js_lt (Fin 0) adj"
    unfolding adj b using r(2) c by (cases r) (simp_all add: Math_max_def)
  have hi: "js_lt adj (Fin 1) \<longleftrightarrow> js_lt (parseFloat s) (Fin 100)"
    unfolding adj b r(1) using r c by (cases "parseFloat s") (simp_all add: Math_max_def)
  have adj': "adj = Math_max (js_div (parseFloat s) (Fin 100)) (js_div (getBaselineRisk (parseInt a)) (Fin 100))"
    unfolding adj b0 r1 age ..
  from pt have p: "pos = calculatePostTestProbability adj (positiveLR t)" by (elim conjE)
  from pt have q: "neg = calculatePostTestProbability adj (negativeLR t)" by (elim conjE)
  from p q adj' lo pos0 hi show ?thesis by (intro conjI)
qed

theorem adjusted_probability_bounds_witness:
  "details (calculateRisk ''50'' ''70'' ''Phosphorylated Tau 217 (pTau 217)'') =
     PostTest (Fin 70) (Fin (15 / 100)) (Fin (50 / 100)) (Fin (50 / 100))
        \<lparr>name = ''Phosphorylated Tau 217 (pTau 217)'', positiveLR = Fin (93 / 10),
          negativeLR = Fin (46 / 100), threshold = Fin 10\<rparr>
        (Fin (93 / 103)) (Fin (46 / 146)) (Fin (93 / 103 - 46 / 146))
   \<and> js_lt (Fin 0) (Fin (50 / 100))
   \<and> js_lt (Fin (50 / 100)) (Fin 1)
   \<and> js_lt (parseFloat ''50'') (Fin 100)"
proof -
  have d: "details (calculateRisk ''50'' ''70'' ''Phosphorylated Tau 217 (pTau 217)'') =
     PostTest (Fin 70) (Fin (15 / 100)) (Fin (50 / 100)) (Fin (50 / 100))
        \<lparr>name = ''Phosphorylated Tau 217 (pTau 217)'', positiveLR = Fin (93 / 10),
          negativeLR = Fin (46 / 100), threshold = Fin 10\<rparr>
        (Fin (93 / 103)) (Fin (46 / 146)) (Fin (93 / 103 - 46 / 146))"
    by (simp add: eval_50_70_pTau)
  note th = adjusted_probability_bounds [OF d]
  from th have p: "js_lt (Fin 0) (Fin (50 / 100))" by (elim conjE)
  have q: "js_lt (Fin (50 / 100)) (Fin 1)" by simp
  from th q have u: "js_lt (parseFloat ''50'') (Fin 100)" by (elim conjE) (rule iffD1)
  from d p q u show ?thesis by (intro conjI)
qed


lemma eval_150_70_pTau:
  "calculateRisk ''150'' ''70'' ''Phosphorylated Tau 217 (pTau 217)'' =
     \<lparr>recommendation = ''[RECOMMENDED] Phosphorylated Tau 217 (pTau 217)'',
      details = PostTest (Fin 70) (Fin (15 / 100)) (Fin (150 / 100)) (Fin (150 / 100))
        \<lparr>name = ''Phosphorylated Tau 217 (pTau 217)'', positiveLR = Fin (93 / 10),
          negativeLR = Fin (46 / 100), threshold = Fin 10\<rparr>
        (Fin (279 / 269)) (Fin (69 / 19)) (Fin (69 / 19 - 279 / 269))\<rparr>"
  by (simp add: eval_defs)

text \<open>
  Claim C9. The clinician probability is not checked against any range. For every
  clinician probability that parses to a finite number, negative or above 100 included,
  with an age that parses and a test of the catalog, the result names the test as
  recommended or not recommended, is none of the three error messages and has details.
  Above 100 the adjusted probability is the clinician's, above 1, the threshold gate
  does not stop it, the pre-test odds are a negative number, and the post-test figures
  are computed from them; below 0 the adjusted probability is the baseline risk.
\<close>

theorem no_range_validation:
  assumes "parseFloat s = Fin x" and "\<not> isNaN (parseInt a)"
    and "find (\<lambda>t. name t = sel) BLOOD_TESTS = Some t"
  shows "(recommendation (calculateRisk s a sel) = ''[RECOMMENDED] '' @ name t
          \<or> recommendation (calculateRisk s a sel) = ''[NOT RECOMMENDED] '' @ name t)
       \<and> recommendation (calculateRisk s a sel) \<noteq> ''Please enter valid numbers for both fields.''
       \<and> recommendation (calculateRisk s a sel) \<noteq> ''Please select a dementia test to proceed.''
       \<and> recommendation (calculateRisk s a sel) \<noteq> ''Error: Selected test not found.''
       \<and> details (calculateRisk s a sel) \<noteq> NoDetails
       \<and> (100 < x \<longrightarrow>
            details (calculateRisk s a sel) =
              PostTest (parseInt a) (js_div (getBaselineRisk (parseInt a)) (Fin 100))
                (Fin (x / 100)) (Fin (x / 100)) t
                (calculatePostTestProbability (Fin (x / 100)) (positiveLR t))
                (calculatePostTestProbability (Fin (x / 100)) (negativeLR t))
                (Math_abs (js_sub (calculatePostTestProbability (Fin (x / 100)) (positiveLR t))
                                  (calculatePostTestProbability (Fin (x / 100)) (negativeLR t))))
            \<and> js_div (Fin (x / 100)) (js_sub (Fin 1) (Fin (x / 100)))
                 = Fin (x / 100 / (1 - x / 100))
            \<and> x / 100 / (1 - x / 100) < 0)
       \<and> (x < 0 \<longrightarrow>
            adjustedRisk (details (calculateRisk s a sel))
              = js_div (getBaselineRisk (parseInt a)) (Fin 100))"
proof -
  have sel: "sel \<noteq> []" using find_catalog [OF assms(3)] by simp
  have nan: "\<not> (isNaN (parseFloat s) \<or> isNaN (parseInt a))" using assms by simp
  obtain c where c: "getBaselineRisk (parseInt a) = Fin c" "3 \<le> c" "c \<le> 65"
    using baseline_bounds [of "parseInt a"] by (elim exE conjE)
  obtain th where th: "threshold t = Fin th" "th \<le> 20"
    using threshold_le_100 [OF assms(3)] by (elim exE conjE)
  have rec: "recommendation (calculateRisk s a sel) = ''[RECOMMENDED] '' @ name t
          \<or> recommendation (calculateRisk s a sel) = ''[NOT RECOMMENDED] '' @ name t"
    unfolding calculateRisk_unfold using nan sel assms(3) by simp
  have e1: "recommendation (calculateRisk s a sel) \<noteq> ''Please enter valid numbers for both fields.''"
    using rec by (elim disjE) simp_all
  have e2: "recommendation (calculateRisk s a sel) \<noteq> ''Please select a dementia test to proceed.''"
    using rec by (elim disjE) simp_all
  have e3: "recommendation (calculateRisk s a sel) \<noteq> ''Error: Selected test not found.''"
    using rec by (elim disjE) simp_all
  have det: "details (calculateRisk s a sel) \<noteq> NoDetails"
    unfolding calculateRisk_unfold using nan sel assms(3) by simp
  have big: "100 < x \<longrightarrow>
            details (calculateRisk s a sel) =
              PostTest (parseInt a) (js_div (getBaselineRisk (parseInt a)) (Fin 100))
                (Fin (x / 100)) (Fin (x / 100)) t
                (calculatePostTestProbability (Fin (x / 100)) (positiveLR t))
                (calculatePostTestProbability (Fin (x / 100)) (negativeLR t))
                (Math_abs (js_sub (calculatePostTestProbability (Fin (x / 100)) (positiveLR t))
                                  (calculatePostTestProbability (Fin (x / 100)) (negativeLR t))))
            \<and> js_div (Fin (x / 100)) (js_sub (Fin 1) (Fin (x / 100)))
                 = Fin (x / 100 / (1 - x / 100))
            \<and> x / 100 / (1 - x / 100) < 0"
  proof
    assume x: "100 < x"
    have adj: "Math_max (js_div (parseFloat s) (Fin 100))
                 (js_div (getBaselineRisk (parseInt a)) (Fin 100)) = Fin (x / 100)"
      unfolding assms c using x c by (simp add: Math_max_def)
    have lt: "\<not> js_lt (js_mul (Fin (x / 100)) (Fin 100)) (threshold t)"
      unfolding th using th(2) x by simp
    have d: "details (calculateRisk s a sel) =
              PostTest (parseInt a) (js_div (getBaselineRisk (parseInt a)) (Fin 100))
                (Fin (x / 100)) (Fin (x / 100)) t
                (calculatePostTestProbability (Fin (x / 100)) (positiveLR t))
                (calculatePostTestProbability (Fin (x / 100)) (negativeLR t))
                (Math_abs (js_sub (calculatePostTestProbability (Fin (x / 100)) (positiveLR t))
                                  (calculatePostTestProbability (Fin (x / 100)) (negativeLR t))))"
      unfolding calculateRisk_unfold adj using nan sel assms(1,3) lt by simp
    have o: "js_div (Fin (x / 100)) (js_sub (Fin 1) (Fin (x / 100)))
                 = Fin (x / 100 / (1 - x / 100))"
      using x by (simp add: js_sub_def)
    have neg: "x / 100 / (1 - x / 100) < 0"
      using x by (simp add: divide_less_0_iff)
    from d o neg show "details (calculateRisk s a sel) =
              PostTest (parseInt a) (js_div (getBaselineRisk (parseInt a)) (Fin 100))
                (Fin (x / 100)) (Fin (x / 100)) t
                (calculatePostTestProbability (Fin (x / 100)) (positiveLR t))
                (calculatePostTestProbability (Fin (x / 100)) (negativeLR t))
                (Math_abs (js_sub (calculatePostTestProbability (Fin (x / 100)) (positiveLR t))
                                  (calculatePostTestProbability (Fin (x / 100)) (negativeLR t))))
            \<and> js_div (Fin (x / 100)) (js_sub (Fin 1) (Fin (x / 100)))
                 = Fin (x / 100 / (1 - x / 100))
            \<and> x / 100 / (1 - x / 100) < 0"
      by (intro conjI)
  qed
  have small: "x < 0 \<longrightarrow>
            adjustedRisk (details (calculateRisk s a sel))
              = js_div (getBaselineRisk (parseInt a)) (Fin 100)"
  proof
    assume x: "x < 0"
    have adj: "Math_max (js_div (parseFloat s) (Fin 100))
                 (js_div (getBaselineRisk (parseInt a)) (Fin 100))
               = js_div (getBaselineRisk (parseInt a)) (Fin 100)"
      unfolding assms c using x c by (simp add: Math_max_def)
    show "adjustedRisk (details (calculateRisk s a sel))
              = js_div (getBaselineRisk (parseInt a)) (Fin 100)"
      unfolding calculateRisk_unfold adj using nan sel assms(3) by simp
  qed
  from rec e1 e2 e3 det big small show ?thesis by (intro conjI)
qed

theorem no_range_validation_witness:
  "parseFloat ''150'' = Fin 150 \<and> \<not> isNaN (parseInt ''70'')
   \<and> find (\<lambda>t. name t = ''Phosphorylated Tau 217 (pTau 217)'') BLOOD_TESTS =
        Some \<lparr>name = ''Phosphorylated Tau 217 (pTau 217)'', positiveLR = Fin (93 / 10),
          negativeLR = Fin (46 / 100), threshold = Fin 10\<rparr>
   \<and> (100 :: real) < 150
   \<and> js_div (Fin (150 / 100)) (js_sub (Fin 1) (Fin (150 / 100))) = Fin (- 3)
   \<and> calculateRisk ''150'' ''70'' ''Phosphorylated Tau 217 (pTau 217)'' =
     \<lparr>recommendation = ''[RECOMMENDED] Phosphorylated Tau 217 (pTau 217)'',
      details = PostTest (Fin 70) (Fin (15 / 100)) (Fin (150 / 100)) (Fin (150 / 100))
        \<lparr>name = ''Phosphorylated Tau 217 (pTau 217)'', positiveLR = Fin (93 / 10),
          negativeLR = Fin (46 / 100), threshold = Fin 10\<rparr>
        (Fin (279 / 269)) (Fin (69 / 19)) (Fin (69 / 19 - 279 / 269))\<rparr>
   \<and> recommendation (calculateRisk ''150'' ''70'' ''Phosphorylated Tau 217 (pTau 217)'')
        \<noteq> ''Please enter valid numbers for both fields.''"
proof -
  have h1: "parseFloat ''150'' = Fin 150" by (simp add: parse_defs)
  have h2: "\<not> isNaN (parseInt ''70'')" by (simp add: parse_defs)
  have h3: "find (\<lambda>t. name t = ''Phosphorylated Tau 217 (pTau 217)'') BLOOD_TESTS =
        Some \<lparr>name = ''Phosphorylated Tau 217 (pTau 217)'', positiveLR = Fin (93 / 10),
          negativeLR = Fin (46 / 100), threshold = Fin 10\<rparr>"
    by (simp add: BLOOD_TESTS_def)
  have h4: "(100 :: real) < 150" by simp
  have o: "js_div (Fin (150 / 100)) (js_sub (Fin 1) (Fin (150 / 100))) = Fin (- 3)"
    by (simp add: js_sub_def)
  note th = no_range_validation [OF h1 h2 h3]
  from th have e: "recommendation (calculateRisk ''150'' ''70'' ''Phosphorylated Tau 217 (pTau 217)'')
        \<noteq> ''Please enter valid numbers for both fields.''"
    by (elim conjE)
  from h1 h2 h3 h4 o eval_150_70_pTau e show ?thesis by (intro conjI)
qed



section \<open>The age is read as an integer\<close>


















end
